theory Spec2Isabelle
  imports Main
begin

section \<open>Values, errors and the Express side of a request\<close>

text \<open>
  The handlers of \<^verbatim>\<open>stripeRoute.ts\<close> are Express request handlers: they read
  \<^verbatim>\<open>req\<close>, call the payment provider through the \<^verbatim>\<open>stripe\<close> client and answer
  through \<^verbatim>\<open>res\<close> or \<^verbatim>\<open>next\<close>. Each handler is embedded as a function from the
  request and the provider's answers to the list of effects it performs, in the order in
  which it performs them.

  A field of \<^verbatim>\<open>req.body\<close> is a JavaScript value. The model has the values the
  handlers distinguish: a missing field (\<^verbatim>\<open>undefined\<close>), \<^verbatim>\<open>null\<close>, booleans and
  strings. Numbers, arrays and objects are left out of the model.
\<close>

datatype jsval = JUndefined | JNull | JBool bool | JStr string

text \<open>The truthiness test of JavaScript, as \<^verbatim>\<open>!price\<close> applies it.\<close>

fun truthy :: "jsval \<Rightarrow> bool" where
  "truthy JUndefined = False"
| "truthy JNull = False"
| "truthy (JBool b) = b"
| "truthy (JStr s) = (s \<noteq> [])"

text \<open>The string conversion of a template literal, \<^verbatim>\<open>`${v}`\<close>.\<close>

fun template :: "jsval \<Rightarrow> string" where
  "template JUndefined = ''undefined''"
| "template JNull = ''null''"
| "template (JBool b) = (if b then ''true'' else ''false'')"
| "template (JStr s) = s"

text \<open>A value of type \<^verbatim>\<open>string | null\<close>, as a JavaScript value.\<close>

fun nullable :: "string option \<Rightarrow> jsval" where
  "nullable None = JNull"
| "nullable (Some s) = JStr s"

text \<open>
  What is thrown: an \<^verbatim>\<open>Error\<close> made by the handler itself, the \<^verbatim>\<open>TypeError\<close> of
  the runtime on a property read of \<^verbatim>\<open>null\<close> or \<^verbatim>\<open>undefined\<close>, and whatever the
  provider's client or an event handler throws.
\<close>

datatype error = Error string | TypeError string | StripeError string

fun message :: "error \<Rightarrow> string" where
  "message (Error m) = m"
| "message (TypeError m) = m"
| "message (StripeError m) = m"

section \<open>The webhook dispatcher\<close>

text \<open>
  \<^verbatim>\<open>event.type\<close> and \<^verbatim>\<open>event.data?.object\<close>: the payload is passed to the handlers
  untouched, so its type is a parameter; \<open>None\<close> stands for \<^verbatim>\<open>undefined\<close>.
\<close>

record 'o event =
  event_type :: string
  data_object :: "'o option"

record webhook_request =
  headers :: "string \<rightharpoonup> string"
  rawBody :: string

text \<open>
  The three handlers of \<^verbatim>\<open>./StripeEvents\<close> are called synchronously; each returns
  (\<open>None\<close>) or throws (\<open>Some e\<close>).
\<close>

record 'o stripeEvents =
  setupIntentSucceeded :: "'o option \<Rightarrow> error option"
  invoicePaymentSucceeded :: "'o option \<Rightarrow> error option"
  customerSubscriptionCreated :: "'o option \<Rightarrow> error option"

datatype handler = SetupIntentSucceeded | InvoicePaymentSucceeded | CustomerSubscriptionCreated

datatype 'o webhook_effect =
    LoggerInfo string
  | LoggerDebugW string
  | Invoke handler "'o option"
  | ResStatusSend nat string
  | ResSendEmpty
  | NextW error

text \<open>
  The outcome of \<^verbatim>\<open>webhook\<close>: the effects it performed, and the exception that left
  the function uncaught, if any.
\<close>

type_synonym 'o webhook_outcome = "'o webhook_effect list \<times> error option"

text \<open>
  \<^verbatim>\<open>stripe.webhooks.constructEvent(req.rawBody, sig, process.env.STRIPE_WEBHOOK_SECRET)\<close>
  belongs to the provider's library: it is the parameter \<open>constructEvent\<close>, which
  returns the event or throws. The secret read from the environment is the
  parameter \<open>secret\<close>.
\<close>

definition webhook ::
  "(string \<Rightarrow> string option \<Rightarrow> string option \<Rightarrow> error + 'o event) \<Rightarrow> 'o stripeEvents \<Rightarrow>
   string option \<Rightarrow> webhook_request \<Rightarrow> 'o webhook_outcome" where
  "webhook constructEvent stripeEvents secret req =
    (let sig = headers req ''stripe-signature'' in
     case constructEvent (rawBody req) sig secret of
       Inl err \<Rightarrow> ([ResStatusSend 400 (''Webhook Error: '' @ message err)], None)
     | Inr event \<Rightarrow>
        (let t = event_type event; obj = data_object event in
         if t = ''payment_intent.succeeded'' then ([LoggerInfo t, ResSendEmpty], None)
         else if t = ''payment_intent.payment_failed'' then ([LoggerInfo t, ResSendEmpty], None)
         else if t = ''checkout.session.completed'' then ([LoggerInfo t, ResSendEmpty], None)
         else if t = ''invoice.paid'' then ([LoggerInfo t, ResSendEmpty], None)
         else if t = ''invoice.payment_failed'' then ([LoggerInfo t, ResSendEmpty], None)
         else if t = ''setup_intent.succeeded'' then
           (case setupIntentSucceeded stripeEvents obj of
              Some error \<Rightarrow> ([LoggerInfo t, Invoke SetupIntentSucceeded obj], Some error)
            | None \<Rightarrow> ([LoggerInfo t, Invoke SetupIntentSucceeded obj, ResSendEmpty], None))
         else if t = ''invoice.payment_succeeded'' then
           (case invoicePaymentSucceeded stripeEvents obj of
              Some error \<Rightarrow>
                ([LoggerInfo t, Invoke InvoicePaymentSucceeded obj, NextW error, ResSendEmpty], None)
            | None \<Rightarrow> ([LoggerInfo t, Invoke InvoicePaymentSucceeded obj, ResSendEmpty], None))
         else if t = ''customer.subscription.created'' then
           (case customerSubscriptionCreated stripeEvents obj of
              Some error \<Rightarrow>
                ([LoggerInfo t, Invoke CustomerSubscriptionCreated obj, NextW error, ResSendEmpty],
                 None)
            | None \<Rightarrow> ([LoggerInfo t, Invoke CustomerSubscriptionCreated obj, ResSendEmpty], None))
         else ([LoggerDebugW (''Unhandled event type '' @ t), ResSendEmpty], None)))"

text \<open>The handler invocations of a run, in order.\<close>

fun invocations :: "'o webhook_effect list \<Rightarrow> (handler \<times> 'o option) list" where
  "invocations [] = []"
| "invocations (Invoke h obj # es) = (h, obj) # invocations es"
| "invocations (_ # es) = invocations es"

section \<open>The checkout and subscription gateway\<close>

subsection \<open>The provider's objects\<close>

text \<open>Of a provider object, the model keeps the fields the handlers read.\<close>

record customer =
  customer_id :: string

record payment_intent =
  pi_status :: string
  pi_client_secret :: "string option"

record setup_intent =
  si_status :: string
  si_client_secret :: "string option"

text \<open>
  A field the provider expands on request holds \<^verbatim>\<open>null\<close>, the identifier of the
  object, or the object itself.
\<close>

datatype 'a expandable = Unexpanded_null | Unexpanded string | Expanded 'a

record invoice =
  inv_payment_intent :: "payment_intent expandable"

record subscription =
  latest_invoice :: "invoice expandable"

record checkout_session =
  url :: "string option"

subsection \<open>Requests, configuration and effects\<close>

record body =
  price :: jsval
  priceId :: jsval
  email :: jsval
  name :: jsval
  userId :: jsval

record config =
  clientDomain :: string
  one_week :: int
  payment_method_types :: "string list"

record session_params =
  mode :: string
  line_items :: "(jsval \<times> nat) list"
  customer_email :: jsval
  subscription_data_metadata :: "(string \<times> jsval) list"
  trial_end :: int
  success_url :: string
  cancel_url :: string

record subscription_params =
  sp_customer :: string
  sp_items :: "jsval list"
  sp_payment_behavior :: string
  sp_save_default_payment_method :: string
  sp_expand :: "string list"
  sp_metadata :: "(string \<times> jsval) list"

text \<open>
  The calls to the provider, with their arguments, and the answers given through
  \<^verbatim>\<open>res\<close> and \<^verbatim>\<open>next\<close>. A JSON answer is the list of its fields.
\<close>

datatype effect =
    CustomersSearch string
  | PaymentIntentsSearch string
  | SetupIntentsList string
  | CustomersCreate jsval jsval jsval
  | SubscriptionsCreate subscription_params
  | SetupIntentsCreate string "string list" jsval
  | CheckoutSessionsCreate session_params
  | LoggerDebug string
  | ResSend "(string \<times> jsval) list"
  | ResRedirect nat "string option"
  | Next error

text \<open>
  The provider's client: each operation answers with its result or throws. The
  \<^verbatim>\<open>data\<close> of a customer search is read with \<^verbatim>\<open>?.\<close>, so it may be
  \<^verbatim>\<open>undefined\<close> (\<open>None\<close>).
\<close>

record stripe =
  customers_search :: "string \<Rightarrow> error + customer list option"
  paymentIntents_search :: "string \<Rightarrow> error + payment_intent list"
  setupIntents_list :: "string \<Rightarrow> error + setup_intent list"
  customers_create :: "jsval \<Rightarrow> jsval \<Rightarrow> jsval \<Rightarrow> error + customer"
  subscriptions_create :: "subscription_params \<Rightarrow> error + subscription"
  setupIntents_create :: "string \<Rightarrow> string list \<Rightarrow> jsval \<Rightarrow> error + setup_intent"
  checkout_sessions_create :: "session_params \<Rightarrow> error + checkout_session"

subsection \<open>createCheckoutSession\<close>

text \<open>
  \<open>now\<close> is \<^verbatim>\<open>Date.now()\<close>, in milliseconds; \<^verbatim>\<open>Math.round(now / 1000)\<close>
  rounds a half upwards.
\<close>

definition createCheckoutSession :: "config \<Rightarrow> int \<Rightarrow> stripe \<Rightarrow> body \<Rightarrow> effect list" where
  "createCheckoutSession config now stripe req =
    (if \<not> truthy (price req) \<or> \<not> truthy (userId req)
     then [Next (Error ''[STRIPE] prices and/or userId were undefined'')]
     else
       (let params =
          \<lparr>mode = ''subscription'',
           line_items = [(price req, 1)],
           customer_email = email req,
           subscription_data_metadata = [(''userId'', userId req), (''email'', email req)],
           trial_end = (now + 500) div 1000 + one_week config * 2,
           success_url =
             clientDomain config @ ''/subscription-success?session_id={CHECKOUT_SESSION_ID}'',
           cancel_url = clientDomain config @ ''/checkout''\<rparr>
        in CheckoutSessionsCreate params #
           (case checkout_sessions_create stripe params of
              Inl error \<Rightarrow> [Next error]
            | Inr session \<Rightarrow> [ResRedirect 303 (url session)])))"

subsection \<open>createNoTrialSubscription\<close>

text \<open>\<^verbatim>\<open>const [x] = data.length ? data : [null]\<close>\<close>

fun first_or_null :: "'a list \<Rightarrow> 'a option" where
  "first_or_null [] = None"
| "first_or_null (x # _) = Some x"

text \<open>
  \<^verbatim>\<open>(subscription.latest_invoice as any).payment_intent.client_secret\<close>: a property
  read of \<^verbatim>\<open>null\<close> or \<^verbatim>\<open>undefined\<close> throws, a property a string does not have
  is \<^verbatim>\<open>undefined\<close>.
\<close>

fun subscription_client_secret :: "subscription \<Rightarrow> error + jsval" where
  "subscription_client_secret subscription =
    (case latest_invoice subscription of
       Unexpanded_null \<Rightarrow>
         Inl (TypeError ''Cannot read properties of null (reading 'payment_intent')'')
     | Unexpanded _ \<Rightarrow>
         Inl (TypeError ''Cannot read properties of undefined (reading 'client_secret')'')
     | Expanded latestInvoice \<Rightarrow>
        (case inv_payment_intent latestInvoice of
           Unexpanded_null \<Rightarrow>
             Inl (TypeError ''Cannot read properties of null (reading 'client_secret')'')
         | Unexpanded _ \<Rightarrow> Inr JUndefined
         | Expanded paymentIntent \<Rightarrow> Inr (nullable (pi_client_secret paymentIntent))))"

definition createNoTrialSubscription :: "stripe \<Rightarrow> body \<Rightarrow> effect list" where
  "createNoTrialSubscription stripe req =
    (let query = ''email:'' @ [CHR 0x22] @ template (email req) @ [CHR 0x22] in
     CustomersSearch query #
     (case customers_search stripe query of
        Inl error \<Rightarrow> [Next error]
      | Inr (Some (customer # _)) \<Rightarrow>
         (let query' = ''customer:'' @ [CHR 0x22] @ customer_id customer @ [CHR 0x22] in
          PaymentIntentsSearch query' #
          (case paymentIntents_search stripe query' of
             Inl error \<Rightarrow> [Next error]
           | Inr data \<Rightarrow>
              (case first_or_null data of
                 None \<Rightarrow> [Next (TypeError ''Cannot read properties of null (reading 'status')'')]
               | Some paymentIntent \<Rightarrow>
                  if pi_status paymentIntent = ''requires_payment_method''
                  then [ResSend [(''clientSecret'', nullable (pi_client_secret paymentIntent)),
                                 (''customerId'', JStr (customer_id customer))]]
                  else [ResSend [(''customerExist'', JStr (customer_id customer))]])))
      | Inr _ \<Rightarrow>
         CustomersCreate (email req) (name req) (userId req) #
         (case customers_create stripe (email req) (name req) (userId req) of
            Inl error \<Rightarrow> [Next error]
          | Inr customer \<Rightarrow>
             (let params =
                \<lparr>sp_customer = customer_id customer,
                 sp_items = [priceId req],
                 sp_payment_behavior = ''default_incomplete'',
                 sp_save_default_payment_method = ''on_subscription'',
                 sp_expand = [''latest_invoice.payment_intent''],
                 sp_metadata = [(''userId'', userId req), (''email'', email req)]\<rparr>
              in SubscriptionsCreate params #
                 (case subscriptions_create stripe params of
                    Inl error \<Rightarrow> [Next error]
                  | Inr subscription \<Rightarrow>
                     LoggerDebug ''[SUBSCRIPTION]'' #
                     (case subscription_client_secret subscription of
                        Inl error \<Rightarrow> [Next error]
                      | Inr clientSecret \<Rightarrow>
                         [ResSend [(''clientSecret'', clientSecret),
                                   (''customerId'', JStr (customer_id customer))]]))))))"

subsection \<open>setupIntent\<close>

definition setupIntent :: "config \<Rightarrow> stripe \<Rightarrow> body \<Rightarrow> effect list" where
  "setupIntent config stripe req =
    (let query = ''email:'' @ [CHR 0x22] @ template (email req) @ [CHR 0x22] in
     CustomersSearch query #
     (case customers_search stripe query of
        Inl error \<Rightarrow> [Next error]
      | Inr (Some (customer # _)) \<Rightarrow>
         SetupIntentsList (customer_id customer) #
         (case setupIntents_list stripe (customer_id customer) of
            Inl error \<Rightarrow> [Next error]
          | Inr data \<Rightarrow>
             (case first_or_null data of
                None \<Rightarrow> [Next (TypeError ''Cannot read properties of null (reading 'status')'')]
              | Some setupIntent \<Rightarrow>
                 if si_status setupIntent = ''requires_payment_method''
                 then [ResSend [(''clientSecret'', nullable (si_client_secret setupIntent)),
                                (''customerId'', JStr (customer_id customer))]]
                 else [ResSend [(''customerExist'', JStr (customer_id customer))]]))
      | Inr _ \<Rightarrow>
         CustomersCreate (email req) (name req) (userId req) #
         (case customers_create stripe (email req) (name req) (userId req) of
            Inl error \<Rightarrow> [Next error]
          | Inr customer \<Rightarrow>
             SetupIntentsCreate (customer_id customer) (payment_method_types config) (userId req) #
             (case setupIntents_create stripe (customer_id customer) (payment_method_types config)
                     (userId req) of
                Inl error \<Rightarrow> [Next error]
              | Inr setupIntent \<Rightarrow>
                 [LoggerDebug ''[SETUP_INTENT]'',
                  ResSend [(''clientSecret'', nullable (si_client_secret setupIntent)),
                           (''customerId'', JStr (customer_id customer))]]))))"

section \<open>Notions used by the properties\<close>

text \<open>The handler a dispatched invocation stands for.\<close>

fun run_handler :: "'o stripeEvents \<Rightarrow> handler \<Rightarrow> 'o option \<Rightarrow> error option" where
  "run_handler stripeEvents SetupIntentSucceeded obj = setupIntentSucceeded stripeEvents obj"
| "run_handler stripeEvents InvoicePaymentSucceeded obj = invoicePaymentSucceeded stripeEvents obj"
| "run_handler stripeEvents CustomerSubscriptionCreated obj =
     customerSubscriptionCreated stripeEvents obj"

text \<open>The provider calls that create an object.\<close>

fun is_create :: "effect \<Rightarrow> bool" where
  "is_create (CustomersCreate _ _ _) = True"
| "is_create (SubscriptionsCreate _) = True"
| "is_create (SetupIntentsCreate _ _ _) = True"
| "is_create (CheckoutSessionsCreate _) = True"
| "is_create _ = False"

text \<open>The queries of the customer searches of a run, in order.\<close>

fun customer_queries :: "effect list \<Rightarrow> string list" where
  "customer_queries [] = []"
| "customer_queries (CustomersSearch q # es) = q # customer_queries es"
| "customer_queries (_ # es) = customer_queries es"

subsection \<open>Concrete requests and provider answers\<close>

text \<open>
  A signature check that accepts the header equal to the secret, and reads the
  event type off the body.
\<close>

definition verify_stub :: "string \<Rightarrow> string option \<Rightarrow> string option \<Rightarrow> error + string event" where
  "verify_stub payload sig secret =
     (case sig of
        None \<Rightarrow> Inl (StripeError ''No stripe-signature header value was provided.'')
      | Some s \<Rightarrow>
          if Some s = secret then Inr \<lparr>event_type = payload, data_object = Some ''obj_1''\<rparr>
          else Inl (StripeError ''No signatures found matching the expected signature.''))"

text \<open>Handlers that all throw.\<close>

definition failing_handlers :: "string stripeEvents" where
  "failing_handlers =
     \<lparr>setupIntentSucceeded = (\<lambda>_. Some (Error ''setup intent handler failed'')),
      invoicePaymentSucceeded = (\<lambda>_. Some (Error ''invoice handler failed'')),
      customerSubscriptionCreated = (\<lambda>_. Some (Error ''subscription handler failed''))\<rparr>"

definition signed_request :: "string \<Rightarrow> webhook_request" where
  "signed_request payload = \<lparr>headers = [''stripe-signature'' \<mapsto> ''whsec_1''], rawBody = payload\<rparr>"

definition unsigned_request :: "string \<Rightarrow> webhook_request" where
  "unsigned_request payload = \<lparr>headers = Map.empty, rawBody = payload\<rparr>"

text \<open>
  A provider that finds the given customers and intents whatever the query, and
  creates a customer \<^verbatim>\<open>cus_2\<close>, a subscription and a setup intent of client secret
  \<^verbatim>\<open>secret_2\<close>, and a checkout session.
\<close>

definition stripe_stub :: "customer list \<Rightarrow> payment_intent list \<Rightarrow> setup_intent list \<Rightarrow> stripe" where
  "stripe_stub found paymentIntents setupIntents =
     \<lparr>customers_search = (\<lambda>_. Inr (Some found)),
      paymentIntents_search = (\<lambda>_. Inr paymentIntents),
      setupIntents_list = (\<lambda>_. Inr setupIntents),
      customers_create = (\<lambda>_ _ _. Inr \<lparr>customer_id = ''cus_2''\<rparr>),
      subscriptions_create = (\<lambda>_. Inr
        \<lparr>latest_invoice = Expanded
          \<lparr>inv_payment_intent = Expanded
            \<lparr>pi_status = ''requires_payment_method'', pi_client_secret = Some ''secret_2''\<rparr>\<rparr>\<rparr>),
      setupIntents_create = (\<lambda>_ _ _. Inr
        \<lparr>si_status = ''requires_payment_method'', si_client_secret = Some ''secret_2''\<rparr>),
      checkout_sessions_create = (\<lambda>_. Inr \<lparr>url = Some ''https://checkout.example/cs_1''\<rparr>)\<rparr>"

text \<open>
  A provider that finds no customer and whose new subscription has an expanded
  latest invoice without a payment intent, as for a price of amount zero.
\<close>

definition stripe_free_price_stub :: stripe where
  "stripe_free_price_stub =
     (stripe_stub [] [] [])
       \<lparr>subscriptions_create := (\<lambda>_. Inr
          \<lparr>latest_invoice = Expanded \<lparr>inv_payment_intent = Unexpanded_null\<rparr>\<rparr>)\<rparr>"

definition request_body :: body where
  "request_body =
     \<lparr>price = JStr ''price_1'', priceId = JStr ''p1'', email = JStr ''a@x.com'',
      name = JStr ''A'', userId = JStr ''u1''\<rparr>"

definition config_stub :: config where
  "config_stub =
     \<lparr>clientDomain = ''http://localhost:4200'', one_week = 604800,
      payment_method_types = [''card'']\<rparr>"

section \<open>Properties of the webhook dispatcher\<close>

text \<open>
  C1. When the signature check of an inbound webhook request fails, \<^verbatim>\<open>webhook\<close>
  answers with status 400 and the text \<^verbatim>\<open>Webhook Error: <message>\<close>, and does nothing
  else: no handler is invoked. Conversely, whenever a handler is invoked, the
  signature check has returned an event.
\<close>

theorem webhook_verification_failure:
  "(constructEvent (rawBody req) (headers req ''stripe-signature'') secret = Inl err \<longrightarrow>
      webhook constructEvent stripeEvents secret req =
        ([ResStatusSend 400 (''Webhook Error: '' @ message err)], None) \<and>
      invocations (fst (webhook constructEvent stripeEvents secret req)) = []) \<and>
   (invocations (fst (webhook constructEvent stripeEvents secret req)) \<noteq> [] \<longrightarrow>
      (\<exists>event. constructEvent (rawBody req) (headers req ''stripe-signature'') secret = Inr event))"
  by (cases "constructEvent (rawBody req) (headers req ''stripe-signature'') secret")
     (simp_all add: webhook_def)

text \<open>
  A request without the \<^verbatim>\<open>stripe-signature\<close> header is rejected; a handler runs on
  a signed one.
\<close>

theorem webhook_verification_failure_witness:
  "verify_stub ''setup_intent.succeeded'' None (Some ''whsec_1'') =
     Inl (StripeError ''No stripe-signature header value was provided.'') \<and>
   webhook verify_stub failing_handlers (Some ''whsec_1'')
       (unsigned_request ''setup_intent.succeeded'') =
     ([ResStatusSend 400 ''Webhook Error: No stripe-signature header value was provided.''],
      None) \<and>
   invocations (fst (webhook verify_stub failing_handlers (Some ''whsec_1'')
       (unsigned_request ''setup_intent.succeeded''))) = [] \<and>
   invocations (fst (webhook verify_stub failing_handlers (Some ''whsec_1'')
       (signed_request ''setup_intent.succeeded''))) \<noteq> [] \<and>
   verify_stub ''setup_intent.succeeded'' (Some ''whsec_1'') (Some ''whsec_1'') =
     Inr \<lparr>event_type = ''setup_intent.succeeded'', data_object = Some ''obj_1''\<rparr>"
  using
    webhook_verification_failure [where constructEvent = verify_stub
      and req = "unsigned_request ''setup_intent.succeeded''" and secret = "Some ''whsec_1''"
      and err = "StripeError ''No stripe-signature header value was provided.''"
      and stripeEvents = failing_handlers]
    webhook_verification_failure [where constructEvent = verify_stub
      and req = "signed_request ''setup_intent.succeeded''" and secret = "Some ''whsec_1''"
      and stripeEvents = failing_handlers]
  by (simp add: verify_stub_def unsigned_request_def signed_request_def webhook_def
      failing_handlers_def)

text \<open>
  C5. For a verified event, the handlers invoked are: exactly
  \<^verbatim>\<open>setupIntentSucceeded\<close>, once, on \<^verbatim>\<open>setup_intent.succeeded\<close>; exactly
  \<^verbatim>\<open>invoicePaymentSucceeded\<close>, once, on \<^verbatim>\<open>invoice.payment_succeeded\<close>; exactly
  \<^verbatim>\<open>customerSubscriptionCreated\<close>, once, on \<^verbatim>\<open>customer.subscription.created\<close>;
  and none on any other type. Each is given the event's \<^verbatim>\<open>data?.object\<close>.
\<close>

theorem webhook_dispatch:
  "constructEvent (rawBody req) (headers req ''stripe-signature'') secret = Inr event \<Longrightarrow>
   invocations (fst (webhook constructEvent stripeEvents secret req)) =
     (if event_type event = ''setup_intent.succeeded''
        then [(SetupIntentSucceeded, data_object event)]
      else if event_type event = ''invoice.payment_succeeded''
        then [(InvoicePaymentSucceeded, data_object event)]
      else if event_type event = ''customer.subscription.created''
        then [(CustomerSubscriptionCreated, data_object event)]
      else [])"
  by (simp add: webhook_def Let_def split: option.split)

theorem webhook_dispatch_witness:
  "verify_stub ''invoice.payment_succeeded'' (Some ''whsec_1'') (Some ''whsec_1'') =
     Inr \<lparr>event_type = ''invoice.payment_succeeded'', data_object = Some ''obj_1''\<rparr> \<and>
   invocations (fst (webhook verify_stub failing_handlers (Some ''whsec_1'')
       (signed_request ''invoice.payment_succeeded''))) =
     [(InvoicePaymentSucceeded, Some ''obj_1'')] \<and>
   verify_stub ''invoice.paid'' (Some ''whsec_1'') (Some ''whsec_1'') =
     Inr \<lparr>event_type = ''invoice.paid'', data_object = Some ''obj_1''\<rparr> \<and>
   invocations (fst (webhook verify_stub failing_handlers (Some ''whsec_1'')
       (signed_request ''invoice.paid''))) = []"
  using
    webhook_dispatch [where constructEvent = verify_stub
      and req = "signed_request ''invoice.payment_succeeded''" and secret = "Some ''whsec_1''"
      and event = "\<lparr>event_type = ''invoice.payment_succeeded'', data_object = Some ''obj_1''\<rparr>"
      and stripeEvents = failing_handlers]
    webhook_dispatch [where constructEvent = verify_stub
      and req = "signed_request ''invoice.paid''" and secret = "Some ''whsec_1''"
      and event = "\<lparr>event_type = ''invoice.paid'', data_object = Some ''obj_1''\<rparr>"
      and stripeEvents = failing_handlers]
  by (simp add: verify_stub_def signed_request_def)

text \<open>
  C6. When the handler invoked for a verified event throws, the error reaches the
  caller of \<^verbatim>\<open>webhook\<close> on an error path: \<^verbatim>\<open>invoicePaymentSucceeded\<close> and
  \<^verbatim>\<open>customerSubscriptionCreated\<close> are called inside \<^verbatim>\<open>try\<close>, and their error is
  passed to \<^verbatim>\<open>next\<close>; \<^verbatim>\<open>setupIntentSucceeded\<close> is called outside any \<^verbatim>\<open>try\<close>, and
  its error leaves \<^verbatim>\<open>webhook\<close> as an exception, which the router calling a
  synchronous handler receives. When the signature check fails, no handler is
  invoked, nothing is passed to \<^verbatim>\<open>next\<close> and nothing is thrown.
\<close>

theorem webhook_handler_failure:
  "(constructEvent (rawBody req) (headers req ''stripe-signature'') secret = Inr event \<and>
    (h, obj) \<in> set (invocations (fst (webhook constructEvent stripeEvents secret req))) \<and>
    run_handler stripeEvents h obj = Some e \<longrightarrow>
      (NextW e \<in> set (fst (webhook constructEvent stripeEvents secret req)) \<or>
       snd (webhook constructEvent stripeEvents secret req) = Some e) \<and>
      (h = SetupIntentSucceeded \<longrightarrow>
         snd (webhook constructEvent stripeEvents secret req) = Some e) \<and>
      (h \<noteq> SetupIntentSucceeded \<longrightarrow>
         NextW e \<in> set (fst (webhook constructEvent stripeEvents secret req)))) \<and>
   (constructEvent (rawBody req) (headers req ''stripe-signature'') secret = Inl err \<longrightarrow>
      invocations (fst (webhook constructEvent stripeEvents secret req)) = [] \<and>
      snd (webhook constructEvent stripeEvents secret req) = None)"
  by (cases "constructEvent (rawBody req) (headers req ''stripe-signature'') secret")
     (auto simp add: webhook_def Let_def split: option.splits if_splits)

theorem webhook_handler_failure_witness:
  "(SetupIntentSucceeded, Some ''obj_1'') \<in> set (invocations (fst
      (webhook verify_stub failing_handlers (Some ''whsec_1'')
         (signed_request ''setup_intent.succeeded'')))) \<and>
   run_handler failing_handlers SetupIntentSucceeded (Some ''obj_1'') =
     Some (Error ''setup intent handler failed'') \<and>
   snd (webhook verify_stub failing_handlers (Some ''whsec_1'')
         (signed_request ''setup_intent.succeeded'')) =
     Some (Error ''setup intent handler failed'') \<and>
   (InvoicePaymentSucceeded, Some ''obj_1'') \<in> set (invocations (fst
      (webhook verify_stub failing_handlers (Some ''whsec_1'')
         (signed_request ''invoice.payment_succeeded'')))) \<and>
   run_handler failing_handlers InvoicePaymentSucceeded (Some ''obj_1'') =
     Some (Error ''invoice handler failed'') \<and>
   NextW (Error ''invoice handler failed'') \<in> set (fst
      (webhook verify_stub failing_handlers (Some ''whsec_1'')
         (signed_request ''invoice.payment_succeeded''))) \<and>
   verify_stub ''setup_intent.succeeded'' None (Some ''whsec_1'') =
     Inl (StripeError ''No stripe-signature header value was provided.'') \<and>
   snd (webhook verify_stub failing_handlers (Some ''whsec_1'')
         (unsigned_request ''setup_intent.succeeded'')) = None"
  using
    webhook_handler_failure [where constructEvent = verify_stub
      and req = "signed_request ''setup_intent.succeeded''" and secret = "Some ''whsec_1''"
      and event = "\<lparr>event_type = ''setup_intent.succeeded'', data_object = Some ''obj_1''\<rparr>"
      and stripeEvents = failing_handlers and h = SetupIntentSucceeded
      and obj = "Some ''obj_1''" and e = "Error ''setup intent handler failed''"]
    webhook_handler_failure [where constructEvent = verify_stub
      and req = "signed_request ''invoice.payment_succeeded''" and secret = "Some ''whsec_1''"
      and event = "\<lparr>event_type = ''invoice.payment_succeeded'', data_object = Some ''obj_1''\<rparr>"
      and stripeEvents = failing_handlers and h = InvoicePaymentSucceeded
      and obj = "Some ''obj_1''" and e = "Error ''invoice handler failed''"]
    webhook_handler_failure [where constructEvent = verify_stub
      and req = "unsigned_request ''setup_intent.succeeded''" and secret = "Some ''whsec_1''"
      and err = "StripeError ''No stripe-signature header value was provided.''"
      and stripeEvents = failing_handlers]
  by (simp add: verify_stub_def signed_request_def unsigned_request_def webhook_def
      failing_handlers_def)

text \<open>
  C9. On \<^verbatim>\<open>invoice.payment_succeeded\<close> and on \<^verbatim>\<open>customer.subscription.created\<close>,
  when the handler throws, the error is passed to \<^verbatim>\<open>next\<close> and \<^verbatim>\<open>webhook\<close> goes on
  to send the empty acknowledgement: the run is the log line, the handler call,
  \<^verbatim>\<open>next(error)\<close> and \<^verbatim>\<open>res.send()\<close>, in this order, and nothing is thrown.
\<close>

theorem webhook_acknowledges_after_handler_failure:
  "(constructEvent (rawBody req) (headers req ''stripe-signature'') secret = Inr event \<and>
    event_type event = ''invoice.payment_succeeded'' \<and>
    invoicePaymentSucceeded stripeEvents (data_object event) = Some e \<longrightarrow>
      webhook constructEvent stripeEvents secret req =
        ([LoggerInfo ''invoice.payment_succeeded'',
          Invoke InvoicePaymentSucceeded (data_object event), NextW e, ResSendEmpty], None)) \<and>
   (constructEvent (rawBody req) (headers req ''stripe-signature'') secret = Inr event \<and>
    event_type event = ''customer.subscription.created'' \<and>
    customerSubscriptionCreated stripeEvents (data_object event) = Some e \<longrightarrow>
      webhook constructEvent stripeEvents secret req =
        ([LoggerInfo ''customer.subscription.created'',
          Invoke CustomerSubscriptionCreated (data_object event), NextW e, ResSendEmpty], None))"
  by (simp add: webhook_def)

theorem webhook_acknowledges_after_handler_failure_witness:
  "verify_stub ''invoice.payment_succeeded'' (Some ''whsec_1'') (Some ''whsec_1'') =
     Inr \<lparr>event_type = ''invoice.payment_succeeded'', data_object = Some ''obj_1''\<rparr> \<and>
   invoicePaymentSucceeded failing_handlers (Some ''obj_1'') =
     Some (Error ''invoice handler failed'') \<and>
   webhook verify_stub failing_handlers (Some ''whsec_1'')
       (signed_request ''invoice.payment_succeeded'') =
     ([LoggerInfo ''invoice.payment_succeeded'', Invoke InvoicePaymentSucceeded (Some ''obj_1''),
       NextW (Error ''invoice handler failed''), ResSendEmpty], None) \<and>
   verify_stub ''customer.subscription.created'' (Some ''whsec_1'') (Some ''whsec_1'') =
     Inr \<lparr>event_type = ''customer.subscription.created'', data_object = Some ''obj_1''\<rparr> \<and>
   customerSubscriptionCreated failing_handlers (Some ''obj_1'') =
     Some (Error ''subscription handler failed'') \<and>
   webhook verify_stub failing_handlers (Some ''whsec_1'')
       (signed_request ''customer.subscription.created'') =
     ([LoggerInfo ''customer.subscription.created'',
       Invoke CustomerSubscriptionCreated (Some ''obj_1''),
       NextW (Error ''subscription handler failed''), ResSendEmpty], None)"
  using
    webhook_acknowledges_after_handler_failure [where constructEvent = verify_stub
      and req = "signed_request ''invoice.payment_succeeded''" and secret = "Some ''whsec_1''"
      and event = "\<lparr>event_type = ''invoice.payment_succeeded'', data_object = Some ''obj_1''\<rparr>"
      and stripeEvents = failing_handlers and e = "Error ''invoice handler failed''"]
    webhook_acknowledges_after_handler_failure [where constructEvent = verify_stub
      and req = "signed_request ''customer.subscription.created''" and secret = "Some ''whsec_1''"
      and event =
        "\<lparr>event_type = ''customer.subscription.created'', data_object = Some ''obj_1''\<rparr>"
      and stripeEvents = failing_handlers and e = "Error ''subscription handler failed''"]
  by (simp add: verify_stub_def signed_request_def failing_handlers_def)

section \<open>Properties of the gateway\<close>

subsection \<open>createNoTrialSubscription\<close>

text \<open>
  The run of \<^verbatim>\<open>createNoTrialSubscription\<close> when the customer search and the
  payment-intent search answer, and the first customer has at least one payment
  intent: the answer is decided by the status of the first payment intent.
\<close>

lemma createNoTrialSubscription_existing_customer:
  "customers_search stripe (''email:'' @ [CHR 0x22] @ template (email req) @ [CHR 0x22]) =
     Inr (Some (customer # others)) \<Longrightarrow>
   paymentIntents_search stripe (''customer:'' @ [CHR 0x22] @ customer_id customer @ [CHR 0x22]) =
     Inr (paymentIntent # further) \<Longrightarrow>
   createNoTrialSubscription stripe req =
     [CustomersSearch (''email:'' @ [CHR 0x22] @ template (email req) @ [CHR 0x22]),
      PaymentIntentsSearch (''customer:'' @ [CHR 0x22] @ customer_id customer @ [CHR 0x22]),
      if pi_status paymentIntent = ''requires_payment_method''
      then ResSend [(''clientSecret'', nullable (pi_client_secret paymentIntent)),
                    (''customerId'', JStr (customer_id customer))]
      else ResSend [(''customerExist'', JStr (customer_id customer))]]"
  by (simp add: createNoTrialSubscription_def)

text \<open>
  C2, at the input the claim singles out. The customer search finds a customer and
  the payment-intent search for that customer finds nothing: \<^verbatim>\<open>paymentIntent\<close> is
  \<^verbatim>\<open>null\<close>, the read of \<^verbatim>\<open>paymentIntent.status\<close> throws, and the run ends in
  \<^verbatim>\<open>next(error)\<close> with that \<^verbatim>\<open>TypeError\<close>; no \<^verbatim>\<open>{customerExist}\<close> is sent. Nothing
  is created.
\<close>

theorem createNoTrialSubscription_without_intents:
  "customers_search stripe (''email:'' @ [CHR 0x22] @ template (email req) @ [CHR 0x22]) =
     Inr (Some (customer # others)) \<Longrightarrow>
   paymentIntents_search stripe (''customer:'' @ [CHR 0x22] @ customer_id customer @ [CHR 0x22]) =
     Inr [] \<Longrightarrow>
   createNoTrialSubscription stripe req =
     [CustomersSearch (''email:'' @ [CHR 0x22] @ template (email req) @ [CHR 0x22]),
      PaymentIntentsSearch (''customer:'' @ [CHR 0x22] @ customer_id customer @ [CHR 0x22]),
      Next (TypeError ''Cannot read properties of null (reading 'status')'')] \<and>
   filter is_create (createNoTrialSubscription stripe req) = []"
  by (simp add: createNoTrialSubscription_def)

theorem createNoTrialSubscription_without_intents_witness:
  "customers_search (stripe_stub [\<lparr>customer_id = ''cus_1''\<rparr>] [] [])
     (''email:'' @ [CHR 0x22] @ template (email request_body) @ [CHR 0x22]) =
     Inr (Some [\<lparr>customer_id = ''cus_1''\<rparr>]) \<and>
   paymentIntents_search (stripe_stub [\<lparr>customer_id = ''cus_1''\<rparr>] [] [])
     (''customer:'' @ [CHR 0x22] @ ''cus_1'' @ [CHR 0x22]) = Inr [] \<and>
   createNoTrialSubscription (stripe_stub [\<lparr>customer_id = ''cus_1''\<rparr>] [] []) request_body =
     [CustomersSearch (''email:'' @ [CHR 0x22] @ ''a@x.com'' @ [CHR 0x22]),
      PaymentIntentsSearch (''customer:'' @ [CHR 0x22] @ ''cus_1'' @ [CHR 0x22]),
      Next (TypeError ''Cannot read properties of null (reading 'status')'')]"
  using createNoTrialSubscription_without_intents
    [where stripe = "stripe_stub [\<lparr>customer_id = ''cus_1''\<rparr>] [] []" and req = request_body
       and customer = "\<lparr>customer_id = ''cus_1''\<rparr>" and others = "[]"]
  by (simp add: stripe_stub_def request_body_def)

text \<open>
  C3 as stated fails: the customer below has a payment intent in
  \<^verbatim>\<open>requires_payment_method\<close> state, but it is the second one the search returns;
  the first has succeeded, and the answer is \<^verbatim>\<open>{customerExist}\<close>.
\<close>

theorem createNoTrialSubscription_pending_intent_not_first:
  "paymentIntents_search
     (stripe_stub [\<lparr>customer_id = ''cus_1''\<rparr>]
        [\<lparr>pi_status = ''succeeded'', pi_client_secret = Some ''secret_a''\<rparr>,
         \<lparr>pi_status = ''requires_payment_method'', pi_client_secret = Some ''secret_b''\<rparr>] [])
     (''customer:'' @ [CHR 0x22] @ ''cus_1'' @ [CHR 0x22]) =
     Inr [\<lparr>pi_status = ''succeeded'', pi_client_secret = Some ''secret_a''\<rparr>,
          \<lparr>pi_status = ''requires_payment_method'', pi_client_secret = Some ''secret_b''\<rparr>] \<and>
   createNoTrialSubscription
     (stripe_stub [\<lparr>customer_id = ''cus_1''\<rparr>]
        [\<lparr>pi_status = ''succeeded'', pi_client_secret = Some ''secret_a''\<rparr>,
         \<lparr>pi_status = ''requires_payment_method'', pi_client_secret = Some ''secret_b''\<rparr>] [])
     request_body =
     [CustomersSearch (''email:'' @ [CHR 0x22] @ ''a@x.com'' @ [CHR 0x22]),
      PaymentIntentsSearch (''customer:'' @ [CHR 0x22] @ ''cus_1'' @ [CHR 0x22]),
      ResSend [(''customerExist'', JStr ''cus_1'')]]"
  by (simp add: createNoTrialSubscription_def stripe_stub_def request_body_def)

text \<open>
  C3, amended. When the customer search finds a customer and the first payment
  intent that the search for the first customer returns is in
  \<^verbatim>\<open>requires_payment_method\<close> state, the answer is that intent's client secret,
  unchanged, with the customer's id; the run is the two searches and the answer,
  and nothing is created.
\<close>

theorem createNoTrialSubscription_resumes:
  "customers_search stripe (''email:'' @ [CHR 0x22] @ template (email req) @ [CHR 0x22]) =
     Inr (Some (customer # others)) \<Longrightarrow>
   paymentIntents_search stripe (''customer:'' @ [CHR 0x22] @ customer_id customer @ [CHR 0x22]) =
     Inr (paymentIntent # further) \<Longrightarrow>
   pi_status paymentIntent = ''requires_payment_method'' \<Longrightarrow>
   createNoTrialSubscription stripe req =
     [CustomersSearch (''email:'' @ [CHR 0x22] @ template (email req) @ [CHR 0x22]),
      PaymentIntentsSearch (''customer:'' @ [CHR 0x22] @ customer_id customer @ [CHR 0x22]),
      ResSend [(''clientSecret'', nullable (pi_client_secret paymentIntent)),
               (''customerId'', JStr (customer_id customer))]] \<and>
   filter is_create (createNoTrialSubscription stripe req) = []"
  by (simp add: createNoTrialSubscription_existing_customer)

theorem createNoTrialSubscription_resumes_witness:
  "customers_search
     (stripe_stub [\<lparr>customer_id = ''cus_1''\<rparr>]
        [\<lparr>pi_status = ''requires_payment_method'', pi_client_secret = Some ''secret_a''\<rparr>] [])
     (''email:'' @ [CHR 0x22] @ template (email request_body) @ [CHR 0x22]) =
     Inr (Some [\<lparr>customer_id = ''cus_1''\<rparr>]) \<and>
   paymentIntents_search
     (stripe_stub [\<lparr>customer_id = ''cus_1''\<rparr>]
        [\<lparr>pi_status = ''requires_payment_method'', pi_client_secret = Some ''secret_a''\<rparr>] [])
     (''customer:'' @ [CHR 0x22] @ ''cus_1'' @ [CHR 0x22]) =
     Inr [\<lparr>pi_status = ''requires_payment_method'', pi_client_secret = Some ''secret_a''\<rparr>] \<and>
   createNoTrialSubscription
     (stripe_stub [\<lparr>customer_id = ''cus_1''\<rparr>]
        [\<lparr>pi_status = ''requires_payment_method'', pi_client_secret = Some ''secret_a''\<rparr>] [])
     request_body =
     [CustomersSearch (''email:'' @ [CHR 0x22] @ ''a@x.com'' @ [CHR 0x22]),
      PaymentIntentsSearch (''customer:'' @ [CHR 0x22] @ ''cus_1'' @ [CHR 0x22]),
      ResSend [(''clientSecret'', JStr ''secret_a''), (''customerId'', JStr ''cus_1'')]]"
  using createNoTrialSubscription_resumes
    [where stripe = "stripe_stub [\<lparr>customer_id = ''cus_1''\<rparr>]
        [\<lparr>pi_status = ''requires_payment_method'', pi_client_secret = Some ''secret_a''\<rparr>] []"
       and req = request_body and customer = "\<lparr>customer_id = ''cus_1''\<rparr>" and others = "[]"
       and paymentIntent =
         "\<lparr>pi_status = ''requires_payment_method'', pi_client_secret = Some ''secret_a''\<rparr>"
       and further = "[]"]
  by (simp add: stripe_stub_def request_body_def)

text \<open>
  C4 as stated fails: below, the customer search finds no customer and every
  provider call returns, but the new subscription's latest invoice has no payment
  intent (\<^verbatim>\<open>null\<close>). The customer and the subscription are created, the read of
  \<^verbatim>\<open>client_secret\<close> throws, and the run ends in \<^verbatim>\<open>next(error)\<close>: no client secret
  and no customer id are sent.
\<close>

theorem createNoTrialSubscription_without_payment_intent:
  "customers_search stripe_free_price_stub
     (''email:'' @ [CHR 0x22] @ ''a@x.com'' @ [CHR 0x22]) = Inr (Some []) \<and>
   createNoTrialSubscription stripe_free_price_stub request_body =
     [CustomersSearch (''email:'' @ [CHR 0x22] @ ''a@x.com'' @ [CHR 0x22]),
      CustomersCreate (JStr ''a@x.com'') (JStr ''A'') (JStr ''u1''),
      SubscriptionsCreate
        \<lparr>sp_customer = ''cus_2'',
         sp_items = [JStr ''p1''],
         sp_payment_behavior = ''default_incomplete'',
         sp_save_default_payment_method = ''on_subscription'',
         sp_expand = [''latest_invoice.payment_intent''],
         sp_metadata = [(''userId'', JStr ''u1''), (''email'', JStr ''a@x.com'')]\<rparr>,
      LoggerDebug ''[SUBSCRIPTION]'',
      Next (TypeError ''Cannot read properties of null (reading 'client_secret')'')]"
  by (simp add: createNoTrialSubscription_def stripe_free_price_stub_def stripe_stub_def
      request_body_def)

text \<open>
  C4, amended. When the customer search finds no customer, the next call creates a
  customer with the request's email, name and \<^verbatim>\<open>userId\<close> metadata. When that call
  returns a customer, the next call creates a subscription for that customer's id
  with payment behaviour \<^verbatim>\<open>default_incomplete\<close>. When that call returns a
  subscription whose latest invoice and its payment intent are expanded objects,
  the answer is that payment intent's client secret with the new customer's id.
\<close>

theorem createNoTrialSubscription_creates:
  "customers_search stripe (''email:'' @ [CHR 0x22] @ template (email req) @ [CHR 0x22]) =
     Inr found \<Longrightarrow>
   found = None \<or> found = Some [] \<Longrightarrow>
   params = \<lparr>sp_customer = customer_id customer,
             sp_items = [priceId req],
             sp_payment_behavior = ''default_incomplete'',
             sp_save_default_payment_method = ''on_subscription'',
             sp_expand = [''latest_invoice.payment_intent''],
             sp_metadata = [(''userId'', userId req), (''email'', email req)]\<rparr> \<Longrightarrow>
   \<exists>rest. createNoTrialSubscription stripe req =
     CustomersSearch (''email:'' @ [CHR 0x22] @ template (email req) @ [CHR 0x22]) #
     CustomersCreate (email req) (name req) (userId req) # rest \<and>
     (customers_create stripe (email req) (name req) (userId req) = Inr customer \<longrightarrow>
       (\<exists>rest'. rest = SubscriptionsCreate params # rest' \<and>
         (subscriptions_create stripe params = Inr subscription \<and>
          latest_invoice subscription = Expanded latestInvoice \<and>
          inv_payment_intent latestInvoice = Expanded paymentIntent \<longrightarrow>
          rest' = [LoggerDebug ''[SUBSCRIPTION]'',
                   ResSend [(''clientSecret'', nullable (pi_client_secret paymentIntent)),
                            (''customerId'', JStr (customer_id customer))]])))"
  by (auto simp add: createNoTrialSubscription_def Let_def split: sum.split)

theorem createNoTrialSubscription_creates_witness:
  "customers_search (stripe_stub [] [] [])
     (''email:'' @ [CHR 0x22] @ template (email request_body) @ [CHR 0x22]) = Inr (Some []) \<and>
   customers_create (stripe_stub [] [] []) (email request_body) (name request_body)
     (userId request_body) = Inr \<lparr>customer_id = ''cus_2''\<rparr> \<and>
   createNoTrialSubscription (stripe_stub [] [] []) request_body =
     [CustomersSearch (''email:'' @ [CHR 0x22] @ ''a@x.com'' @ [CHR 0x22]),
      CustomersCreate (JStr ''a@x.com'') (JStr ''A'') (JStr ''u1''),
      SubscriptionsCreate
        \<lparr>sp_customer = ''cus_2'',
         sp_items = [JStr ''p1''],
         sp_payment_behavior = ''default_incomplete'',
         sp_save_default_payment_method = ''on_subscription'',
         sp_expand = [''latest_invoice.payment_intent''],
         sp_metadata = [(''userId'', JStr ''u1''), (''email'', JStr ''a@x.com'')]\<rparr>,
      LoggerDebug ''[SUBSCRIPTION]'',
      ResSend [(''clientSecret'', JStr ''secret_2''), (''customerId'', JStr ''cus_2'')]]"
  using createNoTrialSubscription_creates
    [where stripe = "stripe_stub [] [] []" and req = request_body and found = "Some []"
       and customer = "\<lparr>customer_id = ''cus_2''\<rparr>"
       and params =
         "\<lparr>sp_customer = ''cus_2'',
           sp_items = [JStr ''p1''],
           sp_payment_behavior = ''default_incomplete'',
           sp_save_default_payment_method = ''on_subscription'',
           sp_expand = [''latest_invoice.payment_intent''],
           sp_metadata = [(''userId'', JStr ''u1''), (''email'', JStr ''a@x.com'')]\<rparr>"
       and subscription =
         "\<lparr>latest_invoice = Expanded
            \<lparr>inv_payment_intent = Expanded
              \<lparr>pi_status = ''requires_payment_method'',
               pi_client_secret = Some ''secret_2''\<rparr>\<rparr>\<rparr>"
       and latestInvoice =
         "\<lparr>inv_payment_intent = Expanded
            \<lparr>pi_status = ''requires_payment_method'', pi_client_secret = Some ''secret_2''\<rparr>\<rparr>"
       and paymentIntent =
         "\<lparr>pi_status = ''requires_payment_method'', pi_client_secret = Some ''secret_2''\<rparr>"]
  by (auto simp add: stripe_stub_def request_body_def)

subsection \<open>createCheckoutSession\<close>

text \<open>
  C7 as stated fails: in the request below both fields are present, the price
  being the empty string; the test \<^verbatim>\<open>!price\<close> holds of it, so the run is the
  validation error and no session is created.
\<close>

theorem createCheckoutSession_empty_price:
  "createCheckoutSession config_stub 1700000000000 (stripe_stub [] [] [])
     \<lparr>price = JStr [], priceId = JUndefined, email = JStr ''a@x.com'', name = JUndefined,
      userId = JStr ''u1''\<rparr> =
     [Next (Error ''[STRIPE] prices and/or userId were undefined'')]"
  by (simp add: createCheckoutSession_def)

text \<open>
  C7, amended. When the price or the user id is missing or otherwise falsy
  (\<^verbatim>\<open>null\<close>, \<^verbatim>\<open>false\<close>, the empty string), the run is the validation error passed
  to \<^verbatim>\<open>next\<close>, and the session-create operation is not called. When both are truthy,
  the first effect is the session-create call, in mode \<^verbatim>\<open>subscription\<close> and for that
  price; when the call returns a session, the answer is the redirect with status 303
  to the session's URL.
\<close>

theorem createCheckoutSession_validation:
  "(\<not> truthy (price req) \<or> \<not> truthy (userId req) \<longrightarrow>
      createCheckoutSession config now stripe req =
        [Next (Error ''[STRIPE] prices and/or userId were undefined'')] \<and>
      filter is_create (createCheckoutSession config now stripe req) = []) \<and>
   (price req = JUndefined \<or> userId req = JUndefined \<longrightarrow>
      createCheckoutSession config now stripe req =
        [Next (Error ''[STRIPE] prices and/or userId were undefined'')]) \<and>
   (truthy (price req) \<and> truthy (userId req) \<longrightarrow>
      (\<exists>params rest.
         createCheckoutSession config now stripe req = CheckoutSessionsCreate params # rest \<and>
         mode params = ''subscription'' \<and> line_items params = [(price req, 1)] \<and>
         (\<forall>session. checkout_sessions_create stripe params = Inr session \<longrightarrow>
            rest = [ResRedirect 303 (url session)])))"
  by (auto simp add: createCheckoutSession_def Let_def)

theorem createCheckoutSession_validation_witness:
  "truthy (price request_body) \<and> truthy (userId request_body) \<and>
   createCheckoutSession config_stub 1700000000000 (stripe_stub [] [] []) request_body =
     [CheckoutSessionsCreate
        \<lparr>mode = ''subscription'',
         line_items = [(JStr ''price_1'', 1)],
         customer_email = JStr ''a@x.com'',
         subscription_data_metadata = [(''userId'', JStr ''u1''), (''email'', JStr ''a@x.com'')],
         trial_end = 1701209600,
         success_url =
           ''http://localhost:4200/subscription-success?session_id={CHECKOUT_SESSION_ID}'',
         cancel_url = ''http://localhost:4200/checkout''\<rparr>,
      ResRedirect 303 (Some ''https://checkout.example/cs_1'')] \<and>
   \<not> truthy (price (request_body\<lparr>price := JUndefined\<rparr>)) \<and>
   createCheckoutSession config_stub 1700000000000 (stripe_stub [] [] [])
     (request_body\<lparr>price := JUndefined\<rparr>) =
     [Next (Error ''[STRIPE] prices and/or userId were undefined'')]"
  using
    createCheckoutSession_validation [where req = request_body and config = config_stub
      and now = 1700000000000 and stripe = "stripe_stub [] [] []"]
    createCheckoutSession_validation [where req = "request_body\<lparr>price := JUndefined\<rparr>"
      and config = config_stub and now = 1700000000000 and stripe = "stripe_stub [] [] []"]
  by (simp add: request_body_def config_stub_def stripe_stub_def createCheckoutSession_def)

subsection \<open>setupIntent and createNoTrialSubscription\<close>

text \<open>
  C8 as stated fails in the branch that creates: below, no customer is found, so
  both operations create the customer \<^verbatim>\<open>cus_2\<close>; \<^verbatim>\<open>setupIntent\<close> then creates a
  setup intent and answers with its client secret, while the subscription that
  \<^verbatim>\<open>createNoTrialSubscription\<close> creates has no payment intent on its latest invoice,
  and its run ends in \<^verbatim>\<open>next(error)\<close> with no client secret sent.
\<close>

theorem setupIntent_answers_where_createNoTrialSubscription_fails:
  "setupIntent config_stub stripe_free_price_stub request_body =
     [CustomersSearch (''email:'' @ [CHR 0x22] @ ''a@x.com'' @ [CHR 0x22]),
      CustomersCreate (JStr ''a@x.com'') (JStr ''A'') (JStr ''u1''),
      SetupIntentsCreate ''cus_2'' [''card''] (JStr ''u1''),
      LoggerDebug ''[SETUP_INTENT]'',
      ResSend [(''clientSecret'', JStr ''secret_2''), (''customerId'', JStr ''cus_2'')]] \<and>
   createNoTrialSubscription stripe_free_price_stub request_body =
     [CustomersSearch (''email:'' @ [CHR 0x22] @ ''a@x.com'' @ [CHR 0x22]),
      CustomersCreate (JStr ''a@x.com'') (JStr ''A'') (JStr ''u1''),
      SubscriptionsCreate
        \<lparr>sp_customer = ''cus_2'',
         sp_items = [JStr ''p1''],
         sp_payment_behavior = ''default_incomplete'',
         sp_save_default_payment_method = ''on_subscription'',
         sp_expand = [''latest_invoice.payment_intent''],
         sp_metadata = [(''userId'', JStr ''u1''), (''email'', JStr ''a@x.com'')]\<rparr>,
      LoggerDebug ''[SUBSCRIPTION]'',
      Next (TypeError ''Cannot read properties of null (reading 'client_secret')'')]"
  by (simp add: setupIntent_def createNoTrialSubscription_def stripe_free_price_stub_def
      stripe_stub_def request_body_def config_stub_def)

text \<open>
  C8, amended. \<^verbatim>\<open>setupIntent\<close> and \<^verbatim>\<open>createNoTrialSubscription\<close> follow the same
  find-or-create branch structure; both send the same customer search.

  When the search finds a customer, \<^verbatim>\<open>setupIntent\<close> lists the setup intents of the
  first customer and \<^verbatim>\<open>createNoTrialSubscription\<close> searches its payment intents.
  When both lookups return a first intent and the two first intents agree on being
  in \<^verbatim>\<open>requires_payment_method\<close> state, both take the same branch: either each resumes
  with the client secret of its own first intent and the customer's id, or each
  reports \<^verbatim>\<open>{customerExist}\<close>. Nothing else is required of the intents: their client
  secrets, their other statuses and the rest of the two lists may differ.

  When the search finds no customer, both create a customer with the request's
  email, name and \<^verbatim>\<open>userId\<close>. When that call returns a customer, \<^verbatim>\<open>setupIntent\<close>
  creates a setup intent and \<^verbatim>\<open>createNoTrialSubscription\<close> a subscription for that
  customer's id. \<^verbatim>\<open>setupIntent\<close> answers with the client secret of the setup intent
  returned, \<^verbatim>\<open>createNoTrialSubscription\<close> with the client secret of the payment intent
  of the latest invoice of the subscription returned when both are expanded objects,
  each with the new customer's id.
\<close>

theorem setupIntent_mirrors_createNoTrialSubscription:
  "query = ''email:'' @ [CHR 0x22] @ template (email req) @ [CHR 0x22] \<Longrightarrow>
   (customers_search stripe query = Inr (Some (customer # others)) \<and>
    setupIntents_list stripe (customer_id customer) = Inr (firstSetupIntent # setupIntents) \<and>
    paymentIntents_search stripe
      (''customer:'' @ [CHR 0x22] @ customer_id customer @ [CHR 0x22]) =
      Inr (firstPaymentIntent # paymentIntents) \<and>
    (si_status firstSetupIntent = ''requires_payment_method'') =
      (pi_status firstPaymentIntent = ''requires_payment_method'') \<longrightarrow>
      (pi_status firstPaymentIntent = ''requires_payment_method'' \<longrightarrow>
         setupIntent config stripe req =
           [CustomersSearch query,
            SetupIntentsList (customer_id customer),
            ResSend [(''clientSecret'', nullable (si_client_secret firstSetupIntent)),
                     (''customerId'', JStr (customer_id customer))]] \<and>
         createNoTrialSubscription stripe req =
           [CustomersSearch query,
            PaymentIntentsSearch (''customer:'' @ [CHR 0x22] @ customer_id customer @ [CHR 0x22]),
            ResSend [(''clientSecret'', nullable (pi_client_secret firstPaymentIntent)),
                     (''customerId'', JStr (customer_id customer))]]) \<and>
      (pi_status firstPaymentIntent \<noteq> ''requires_payment_method'' \<longrightarrow>
         setupIntent config stripe req =
           [CustomersSearch query,
            SetupIntentsList (customer_id customer),
            ResSend [(''customerExist'', JStr (customer_id customer))]] \<and>
         createNoTrialSubscription stripe req =
           [CustomersSearch query,
            PaymentIntentsSearch (''customer:'' @ [CHR 0x22] @ customer_id customer @ [CHR 0x22]),
            ResSend [(''customerExist'', JStr (customer_id customer))]])) \<and>
   (customers_search stripe query = Inr None \<or> customers_search stripe query = Inr (Some []) \<longrightarrow>
      (\<exists>rest rest'.
         setupIntent config stripe req =
           CustomersSearch query # CustomersCreate (email req) (name req) (userId req) # rest \<and>
         createNoTrialSubscription stripe req =
           CustomersSearch query # CustomersCreate (email req) (name req) (userId req) # rest' \<and>
         (customers_create stripe (email req) (name req) (userId req) = Inr created \<longrightarrow>
            (\<exists>answer answer'.
               rest =
                 SetupIntentsCreate (customer_id created) (payment_method_types config)
                   (userId req) # answer \<and>
               rest' =
                 SubscriptionsCreate
                   \<lparr>sp_customer = customer_id created,
                    sp_items = [priceId req],
                    sp_payment_behavior = ''default_incomplete'',
                    sp_save_default_payment_method = ''on_subscription'',
                    sp_expand = [''latest_invoice.payment_intent''],
                    sp_metadata = [(''userId'', userId req), (''email'', email req)]\<rparr> #
                 answer' \<and>
               (setupIntents_create stripe (customer_id created) (payment_method_types config)
                  (userId req) = Inr newSetupIntent \<longrightarrow>
                  answer =
                    [LoggerDebug ''[SETUP_INTENT]'',
                     ResSend [(''clientSecret'', nullable (si_client_secret newSetupIntent)),
                              (''customerId'', JStr (customer_id created))]]) \<and>
               (subscriptions_create stripe
                  \<lparr>sp_customer = customer_id created,
                   sp_items = [priceId req],
                   sp_payment_behavior = ''default_incomplete'',
                   sp_save_default_payment_method = ''on_subscription'',
                   sp_expand = [''latest_invoice.payment_intent''],
                   sp_metadata = [(''userId'', userId req), (''email'', email req)]\<rparr> =
                  Inr newSubscription \<and>
                latest_invoice newSubscription = Expanded latestInvoice \<and>
                inv_payment_intent latestInvoice = Expanded newPaymentIntent \<longrightarrow>
                  answer' =
                    [LoggerDebug ''[SUBSCRIPTION]'',
                     ResSend [(''clientSecret'', nullable (pi_client_secret newPaymentIntent)),
                              (''customerId'', JStr (customer_id created))]])))))"
proof (intro conjI impI)
  assume query: "query = ''email:'' @ [CHR 0x22] @ template (email req) @ [CHR 0x22]"
  {
    assume "customers_search stripe query = Inr (Some (customer # others)) \<and>
      setupIntents_list stripe (customer_id customer) = Inr (firstSetupIntent # setupIntents) \<and>
      paymentIntents_search stripe
        (''customer:'' @ [CHR 0x22] @ customer_id customer @ [CHR 0x22]) =
        Inr (firstPaymentIntent # paymentIntents) \<and>
      (si_status firstSetupIntent = ''requires_payment_method'') =
        (pi_status firstPaymentIntent = ''requires_payment_method'')"
    then have found: "customers_search stripe query = Inr (Some (customer # others))"
      and listed: "setupIntents_list stripe (customer_id customer) =
        Inr (firstSetupIntent # setupIntents)"
      and searched: "paymentIntents_search stripe
        (''customer:'' @ [CHR 0x22] @ customer_id customer @ [CHR 0x22]) =
        Inr (firstPaymentIntent # paymentIntents)"
      and agree: "(si_status firstSetupIntent = ''requires_payment_method'') =
        (pi_status firstPaymentIntent = ''requires_payment_method'')"
      by simp_all
    {
      assume pending: "pi_status firstPaymentIntent = ''requires_payment_method''"
      with agree have "si_status firstSetupIntent = ''requires_payment_method''"
        by simp
      with found listed query
      show "setupIntent config stripe req =
           [CustomersSearch query,
            SetupIntentsList (customer_id customer),
            ResSend [(''clientSecret'', nullable (si_client_secret firstSetupIntent)),
                     (''customerId'', JStr (customer_id customer))]]"
        by (simp add: setupIntent_def)
      from pending found searched query
      show "createNoTrialSubscription stripe req =
           [CustomersSearch query,
            PaymentIntentsSearch (''customer:'' @ [CHR 0x22] @ customer_id customer @ [CHR 0x22]),
            ResSend [(''clientSecret'', nullable (pi_client_secret firstPaymentIntent)),
                     (''customerId'', JStr (customer_id customer))]]"
        by (simp add: createNoTrialSubscription_def)
    }
    {
      assume settled: "pi_status firstPaymentIntent \<noteq> ''requires_payment_method''"
      with agree have "si_status firstSetupIntent \<noteq> ''requires_payment_method''"
        by simp
      with found listed query
      show "setupIntent config stripe req =
           [CustomersSearch query,
            SetupIntentsList (customer_id customer),
            ResSend [(''customerExist'', JStr (customer_id customer))]]"
        by (simp add: setupIntent_def)
      from settled found searched query
      show "createNoTrialSubscription stripe req =
           [CustomersSearch query,
            PaymentIntentsSearch (''customer:'' @ [CHR 0x22] @ customer_id customer @ [CHR 0x22]),
            ResSend [(''customerExist'', JStr (customer_id customer))]]"
        by (simp add: createNoTrialSubscription_def)
    }
  }
  {
    assume absent: "customers_search stripe query = Inr None \<or>
      customers_search stripe query = Inr (Some [])"
    with query
    show "\<exists>rest rest'.
         setupIntent config stripe req =
           CustomersSearch query # CustomersCreate (email req) (name req) (userId req) # rest \<and>
         createNoTrialSubscription stripe req =
           CustomersSearch query # CustomersCreate (email req) (name req) (userId req) # rest' \<and>
         (customers_create stripe (email req) (name req) (userId req) = Inr created \<longrightarrow>
            (\<exists>answer answer'.
               rest =
                 SetupIntentsCreate (customer_id created) (payment_method_types config)
                   (userId req) # answer \<and>
               rest' =
                 SubscriptionsCreate
                   \<lparr>sp_customer = customer_id created,
                    sp_items = [priceId req],
                    sp_payment_behavior = ''default_incomplete'',
                    sp_save_default_payment_method = ''on_subscription'',
                    sp_expand = [''latest_invoice.payment_intent''],
                    sp_metadata = [(''userId'', userId req), (''email'', email req)]\<rparr> #
                 answer' \<and>
               (setupIntents_create stripe (customer_id created) (payment_method_types config)
                  (userId req) = Inr newSetupIntent \<longrightarrow>
                  answer =
                    [LoggerDebug ''[SETUP_INTENT]'',
                     ResSend [(''clientSecret'', nullable (si_client_secret newSetupIntent)),
                              (''customerId'', JStr (customer_id created))]]) \<and>
               (subscriptions_create stripe
                  \<lparr>sp_customer = customer_id created,
                   sp_items = [priceId req],
                   sp_payment_behavior = ''default_incomplete'',
                   sp_save_default_payment_method = ''on_subscription'',
                   sp_expand = [''latest_invoice.payment_intent''],
                   sp_metadata = [(''userId'', userId req), (''email'', email req)]\<rparr> =
                  Inr newSubscription \<and>
                latest_invoice newSubscription = Expanded latestInvoice \<and>
                inv_payment_intent latestInvoice = Expanded newPaymentIntent \<longrightarrow>
                  answer' =
                    [LoggerDebug ''[SUBSCRIPTION]'',
                     ResSend [(''clientSecret'', nullable (pi_client_secret newPaymentIntent)),
                              (''customerId'', JStr (customer_id created))]])))"
      by (auto simp add: setupIntent_def createNoTrialSubscription_def Let_def split: sum.split)
  }
qed

text \<open>
  The three branches, on concrete answers: first intents that are both pending,
  with different client secrets and a further payment intent; first intents that
  are both not pending, with different statuses; and no customer.
\<close>

theorem setupIntent_mirrors_createNoTrialSubscription_witness:
  "setupIntent config_stub
     (stripe_stub [\<lparr>customer_id = ''cus_1''\<rparr>]
        [\<lparr>pi_status = ''requires_payment_method'', pi_client_secret = Some ''pi_1_secret''\<rparr>,
         \<lparr>pi_status = ''succeeded'', pi_client_secret = Some ''pi_0_secret''\<rparr>]
        [\<lparr>si_status = ''requires_payment_method'', si_client_secret = Some ''seti_1_secret''\<rparr>])
     request_body =
     [CustomersSearch (''email:'' @ [CHR 0x22] @ ''a@x.com'' @ [CHR 0x22]),
      SetupIntentsList ''cus_1'',
      ResSend [(''clientSecret'', JStr ''seti_1_secret''), (''customerId'', JStr ''cus_1'')]] \<and>
   createNoTrialSubscription
     (stripe_stub [\<lparr>customer_id = ''cus_1''\<rparr>]
        [\<lparr>pi_status = ''requires_payment_method'', pi_client_secret = Some ''pi_1_secret''\<rparr>,
         \<lparr>pi_status = ''succeeded'', pi_client_secret = Some ''pi_0_secret''\<rparr>]
        [\<lparr>si_status = ''requires_payment_method'', si_client_secret = Some ''seti_1_secret''\<rparr>])
     request_body =
     [CustomersSearch (''email:'' @ [CHR 0x22] @ ''a@x.com'' @ [CHR 0x22]),
      PaymentIntentsSearch (''customer:'' @ [CHR 0x22] @ ''cus_1'' @ [CHR 0x22]),
      ResSend [(''clientSecret'', JStr ''pi_1_secret''), (''customerId'', JStr ''cus_1'')]] \<and>
   setupIntent config_stub
     (stripe_stub [\<lparr>customer_id = ''cus_1''\<rparr>]
        [\<lparr>pi_status = ''succeeded'', pi_client_secret = Some ''pi_1_secret''\<rparr>]
        [\<lparr>si_status = ''canceled'', si_client_secret = Some ''seti_1_secret''\<rparr>])
     request_body =
     [CustomersSearch (''email:'' @ [CHR 0x22] @ ''a@x.com'' @ [CHR 0x22]),
      SetupIntentsList ''cus_1'',
      ResSend [(''customerExist'', JStr ''cus_1'')]] \<and>
   createNoTrialSubscription
     (stripe_stub [\<lparr>customer_id = ''cus_1''\<rparr>]
        [\<lparr>pi_status = ''succeeded'', pi_client_secret = Some ''pi_1_secret''\<rparr>]
        [\<lparr>si_status = ''canceled'', si_client_secret = Some ''seti_1_secret''\<rparr>])
     request_body =
     [CustomersSearch (''email:'' @ [CHR 0x22] @ ''a@x.com'' @ [CHR 0x22]),
      PaymentIntentsSearch (''customer:'' @ [CHR 0x22] @ ''cus_1'' @ [CHR 0x22]),
      ResSend [(''customerExist'', JStr ''cus_1'')]] \<and>
   setupIntent config_stub (stripe_stub [] [] []) request_body =
     [CustomersSearch (''email:'' @ [CHR 0x22] @ ''a@x.com'' @ [CHR 0x22]),
      CustomersCreate (JStr ''a@x.com'') (JStr ''A'') (JStr ''u1''),
      SetupIntentsCreate ''cus_2'' [''card''] (JStr ''u1''),
      LoggerDebug ''[SETUP_INTENT]'',
      ResSend [(''clientSecret'', JStr ''secret_2''), (''customerId'', JStr ''cus_2'')]] \<and>
   createNoTrialSubscription (stripe_stub [] [] []) request_body =
     [CustomersSearch (''email:'' @ [CHR 0x22] @ ''a@x.com'' @ [CHR 0x22]),
      CustomersCreate (JStr ''a@x.com'') (JStr ''A'') (JStr ''u1''),
      SubscriptionsCreate
        \<lparr>sp_customer = ''cus_2'',
         sp_items = [JStr ''p1''],
         sp_payment_behavior = ''default_incomplete'',
         sp_save_default_payment_method = ''on_subscription'',
         sp_expand = [''latest_invoice.payment_intent''],
         sp_metadata = [(''userId'', JStr ''u1''), (''email'', JStr ''a@x.com'')]\<rparr>,
      LoggerDebug ''[SUBSCRIPTION]'',
      ResSend [(''clientSecret'', JStr ''secret_2''), (''customerId'', JStr ''cus_2'')]]"
proof -
  let ?query = "''email:'' @ [CHR 0x22] @ template (email request_body) @ [CHR 0x22]"
  let ?pending = "stripe_stub [\<lparr>customer_id = ''cus_1''\<rparr>]
        [\<lparr>pi_status = ''requires_payment_method'', pi_client_secret = Some ''pi_1_secret''\<rparr>,
         \<lparr>pi_status = ''succeeded'', pi_client_secret = Some ''pi_0_secret''\<rparr>]
        [\<lparr>si_status = ''requires_payment_method'', si_client_secret = Some ''seti_1_secret''\<rparr>]"
  let ?settled = "stripe_stub [\<lparr>customer_id = ''cus_1''\<rparr>]
        [\<lparr>pi_status = ''succeeded'', pi_client_secret = Some ''pi_1_secret''\<rparr>]
        [\<lparr>si_status = ''canceled'', si_client_secret = Some ''seti_1_secret''\<rparr>]"
  have pending:
    "setupIntent config_stub ?pending request_body =
       [CustomersSearch ?query, SetupIntentsList ''cus_1'',
        ResSend [(''clientSecret'', JStr ''seti_1_secret''), (''customerId'', JStr ''cus_1'')]] \<and>
     createNoTrialSubscription ?pending request_body =
       [CustomersSearch ?query,
        PaymentIntentsSearch (''customer:'' @ [CHR 0x22] @ ''cus_1'' @ [CHR 0x22]),
        ResSend [(''clientSecret'', JStr ''pi_1_secret''), (''customerId'', JStr ''cus_1'')]]"
    using setupIntent_mirrors_createNoTrialSubscription
      [where query = ?query and req = request_body and stripe = ?pending
         and config = config_stub and customer = "\<lparr>customer_id = ''cus_1''\<rparr>" and others = "[]"
         and firstSetupIntent =
           "\<lparr>si_status = ''requires_payment_method'', si_client_secret = Some ''seti_1_secret''\<rparr>"
         and setupIntents = "[]"
         and firstPaymentIntent =
           "\<lparr>pi_status = ''requires_payment_method'', pi_client_secret = Some ''pi_1_secret''\<rparr>"
         and paymentIntents =
           "[\<lparr>pi_status = ''succeeded'', pi_client_secret = Some ''pi_0_secret''\<rparr>]"]
    by (simp add: stripe_stub_def)
  have settled:
    "setupIntent config_stub ?settled request_body =
       [CustomersSearch ?query, SetupIntentsList ''cus_1'',
        ResSend [(''customerExist'', JStr ''cus_1'')]] \<and>
     createNoTrialSubscription ?settled request_body =
       [CustomersSearch ?query,
        PaymentIntentsSearch (''customer:'' @ [CHR 0x22] @ ''cus_1'' @ [CHR 0x22]),
        ResSend [(''customerExist'', JStr ''cus_1'')]]"
    using setupIntent_mirrors_createNoTrialSubscription
      [where query = ?query and req = request_body and stripe = ?settled
         and config = config_stub and customer = "\<lparr>customer_id = ''cus_1''\<rparr>" and others = "[]"
         and firstSetupIntent =
           "\<lparr>si_status = ''canceled'', si_client_secret = Some ''seti_1_secret''\<rparr>"
         and setupIntents = "[]"
         and firstPaymentIntent =
           "\<lparr>pi_status = ''succeeded'', pi_client_secret = Some ''pi_1_secret''\<rparr>"
         and paymentIntents = "[]"]
    by (simp add: stripe_stub_def)
  have created:
    "setupIntent config_stub (stripe_stub [] [] []) request_body =
       [CustomersSearch ?query,
        CustomersCreate (JStr ''a@x.com'') (JStr ''A'') (JStr ''u1''),
        SetupIntentsCreate ''cus_2'' [''card''] (JStr ''u1''),
        LoggerDebug ''[SETUP_INTENT]'',
        ResSend [(''clientSecret'', JStr ''secret_2''), (''customerId'', JStr ''cus_2'')]] \<and>
     createNoTrialSubscription (stripe_stub [] [] []) request_body =
       [CustomersSearch ?query,
        CustomersCreate (JStr ''a@x.com'') (JStr ''A'') (JStr ''u1''),
        SubscriptionsCreate
          \<lparr>sp_customer = ''cus_2'',
           sp_items = [JStr ''p1''],
           sp_payment_behavior = ''default_incomplete'',
           sp_save_default_payment_method = ''on_subscription'',
           sp_expand = [''latest_invoice.payment_intent''],
           sp_metadata = [(''userId'', JStr ''u1''), (''email'', JStr ''a@x.com'')]\<rparr>,
        LoggerDebug ''[SUBSCRIPTION]'',
        ResSend [(''clientSecret'', JStr ''secret_2''), (''customerId'', JStr ''cus_2'')]]"
    using setupIntent_mirrors_createNoTrialSubscription
      [where query = ?query and req = request_body and stripe = "stripe_stub [] [] []"
         and config = config_stub and created = "\<lparr>customer_id = ''cus_2''\<rparr>"
         and newSetupIntent =
           "\<lparr>si_status = ''requires_payment_method'', si_client_secret = Some ''secret_2''\<rparr>"
         and newSubscription =
           "\<lparr>latest_invoice = Expanded
              \<lparr>inv_payment_intent = Expanded
                \<lparr>pi_status = ''requires_payment_method'',
                 pi_client_secret = Some ''secret_2''\<rparr>\<rparr>\<rparr>"
         and latestInvoice =
           "\<lparr>inv_payment_intent = Expanded
              \<lparr>pi_status = ''requires_payment_method'', pi_client_secret = Some ''secret_2''\<rparr>\<rparr>"
         and newPaymentIntent =
           "\<lparr>pi_status = ''requires_payment_method'', pi_client_secret = Some ''secret_2''\<rparr>"]
    by (auto simp add: stripe_stub_def request_body_def config_stub_def)
  from pending settled created show ?thesis
    by (simp add: request_body_def)
qed

text \<open>
  C10. In \<^verbatim>\<open>createNoTrialSubscription\<close> and in \<^verbatim>\<open>setupIntent\<close>, the one customer
  search of a run is sent the query \<^verbatim>\<open>email:"\<close>, the request's email as it is,
  \<^verbatim>\<open>"\<close>: for every string, with no character escaped or removed. A double quote
  inside the email is therefore a double quote inside the query.
\<close>

theorem customer_query_unescaped:
  "customer_queries (createNoTrialSubscription stripe (req\<lparr>email := JStr e\<rparr>)) =
     [''email:'' @ [CHR 0x22] @ e @ [CHR 0x22]] \<and>
   customer_queries (setupIntent config stripe (req\<lparr>email := JStr e\<rparr>)) =
     [''email:'' @ [CHR 0x22] @ e @ [CHR 0x22]]"
  by (simp add: createNoTrialSubscription_def setupIntent_def Let_def
      split: sum.split option.split list.split)

text \<open>
  An email with two double quotes: the query holds two quoted terms joined by
  \<^verbatim>\<open>OR\<close>, and four double quotes.
\<close>

theorem customer_query_unescaped_witness:
  "customer_queries (createNoTrialSubscription (stripe_stub [] [] [])
     (request_body\<lparr>email := JStr (''a'' @ [CHR 0x22] @ '' OR email:'' @ [CHR 0x22] @ ''b'')\<rparr>)) =
     [''email:'' @ [CHR 0x22] @ ''a'' @ [CHR 0x22] @ '' OR email:'' @ [CHR 0x22] @ ''b'' @
      [CHR 0x22]] \<and>
   customer_queries (setupIntent config_stub (stripe_stub [] [] [])
     (request_body\<lparr>email := JStr (''a'' @ [CHR 0x22] @ '' OR email:'' @ [CHR 0x22] @ ''b'')\<rparr>)) =
     [''email:'' @ [CHR 0x22] @ ''a'' @ [CHR 0x22] @ '' OR email:'' @ [CHR 0x22] @ ''b'' @
      [CHR 0x22]] \<and>
   length (filter (\<lambda>c. c = CHR 0x22)
     (''email:'' @ [CHR 0x22] @ ''a'' @ [CHR 0x22] @ '' OR email:'' @ [CHR 0x22] @ ''b'' @
      [CHR 0x22])) = 4"
  using customer_query_unescaped
    [where stripe = "stripe_stub [] [] []" and req = request_body and config = config_stub
       and e = "''a'' @ [CHR 0x22] @ '' OR email:'' @ [CHR 0x22] @ ''b''"]
  by simp

end
